theory Spec2Isabelle
  imports Main "HOL-Library.Sublist"
begin

section \<open>trimshare: inferring the name of the output video\<close>

text \<open>
  The development embeds \<^verbatim>\<open>infer_out_video_name\<close> of
  \<^verbatim>\<open>trimshare/trimshare.py\<close>. The function reads two things of its environment, the
  filesystem (through \<^verbatim>\<open>Path(...).exists()\<close>) and the local clock (through
  \<^verbatim>\<open>datetime.now()\<close>), so the model threads a world holding both through every call.
  Python strings are modelled as HOL strings, exceptions as the left summand of a sum: the
  two exceptions the function raises itself and the \<^verbatim>\<open>OSError\<close> that
  \<^verbatim>\<open>Path(...).exists()\<close> lets through.
\<close>

subsection \<open>Python string operations used by the function\<close>

text \<open>
  \<^verbatim>\<open>s.split(c)\<close> for a one-character separator: the pieces between the occurrences
  of the separator, in order; a string with \<open>n\<close> separators gives \<open>n + 1\<close> pieces,
  some of them possibly empty.
\<close>

fun str_split :: "char \<Rightarrow> string \<Rightarrow> string list" where
  "str_split c [] = [[]]"
| "str_split c (x # xs) =
     (if x = c then [] # str_split c xs
      else (x # hd (str_split c xs)) # tl (str_split c xs))"

text \<open>\<^verbatim>\<open>sep.join(xs)\<close>: the pieces with the separator between neighbours.\<close>

fun str_join :: "string \<Rightarrow> string list \<Rightarrow> string" where
  "str_join sep [] = []"
| "str_join sep [x] = x"
| "str_join sep (x # y # ys) = x @ sep @ str_join sep (y # ys)"

text \<open>\<^verbatim>\<open>str(n)\<close> for a natural number: its decimal digits, most significant first.\<close>

definition digit_char :: "nat \<Rightarrow> char" where
  "digit_char n = ''0123456789'' ! n"

fun str_nat :: "nat \<Rightarrow> string" where
  "str_nat n = (if n < 10 then [digit_char n] else str_nat (n div 10) @ [digit_char (n mod 10)])"

declare str_nat.simps [simp del]

text \<open>\<^verbatim>\<open>s.zfill(w)\<close>: pad with zeros on the left up to width \<open>w\<close>; never truncates.\<close>

definition zfill :: "nat \<Rightarrow> string \<Rightarrow> string" where
  "zfill w s = replicate (w - length s) (CHR ''0'') @ s"

subsection \<open>The clock\<close>

text \<open>
  The fields of a Python \<^verbatim>\<open>datetime\<close> that the format string reads. A value built by
  \<^verbatim>\<open>datetime.now()\<close> satisfies \<open>valid_datetime\<close>: years run from 1 to 9999
  (\<^verbatim>\<open>MINYEAR\<close>, \<^verbatim>\<open>MAXYEAR\<close>) and the other fields are calendar values.
\<close>

record datetime =
  year :: nat
  month :: nat
  day :: nat
  hour :: nat
  minute :: nat
  second :: nat

definition is_leap :: "nat \<Rightarrow> bool" where
  "is_leap y = (y mod 4 = 0 \<and> (y mod 100 \<noteq> 0 \<or> y mod 400 = 0))"

definition days_in_month :: "nat \<Rightarrow> nat \<Rightarrow> nat" where
  "days_in_month y m =
     (if m = 2 then (if is_leap y then 29 else 28)
      else if m = 4 \<or> m = 6 \<or> m = 9 \<or> m = 11 then 30 else 31)"

definition valid_datetime :: "datetime \<Rightarrow> bool" where
  "valid_datetime d =
     (1 \<le> year d \<and> year d \<le> 9999 \<and> 1 \<le> month d \<and> month d \<le> 12 \<and>
      1 \<le> day d \<and> day d \<le> days_in_month (year d) (month d) \<and>
      hour d < 24 \<and> minute d < 60 \<and> second d < 60)"

text \<open>
  The reading at which the tests of the repository freeze the clock,
  \<^verbatim>\<open>2001-01-01 01:01:01\<close>.
\<close>

definition frozen_clock :: datetime where
  "frozen_clock = \<lparr>year = 2001, month = 1, day = 1, hour = 1, minute = 1, second = 1\<rparr>"

text \<open>
  The first second of the year 999, a reading a frozen clock can give and a valid
  \<^verbatim>\<open>datetime\<close>, whose year has fewer than four digits.
\<close>

definition clock_year_999 :: datetime where
  "clock_year_999 = \<lparr>year = 999, month = 1, day = 1, hour = 0, minute = 0, second = 0\<rparr>"

text \<open>
  \<^verbatim>\<open>strftime\<close>: the directives the program uses are \<^verbatim>\<open>%Y\<close>, \<^verbatim>\<open>%m\<close>,
  \<^verbatim>\<open>%d\<close>, \<^verbatim>\<open>%H\<close>, \<^verbatim>\<open>%M\<close> and \<^verbatim>\<open>%S\<close>; every other character of the
  format is copied. \<^verbatim>\<open>%Y\<close> prints the year in decimal without padding, as the C
  library under the interpreter does: the year 999 gives \<^verbatim>\<open>999\<close> and the year 1 gives
  \<^verbatim>\<open>1\<close>, so the year has four digits from 1000 on only. The other five directives
  pad with zeros to two digits.
\<close>

definition directive :: "datetime \<Rightarrow> char \<Rightarrow> string" where
  "directive d c =
     (if c = CHR ''Y'' then str_nat (year d)
      else if c = CHR ''m'' then zfill 2 (str_nat (month d))
      else if c = CHR ''d'' then zfill 2 (str_nat (day d))
      else if c = CHR ''H'' then zfill 2 (str_nat (hour d))
      else if c = CHR ''M'' then zfill 2 (str_nat (minute d))
      else if c = CHR ''S'' then zfill 2 (str_nat (second d))
      else [CHR ''%'', c])"

fun strftime :: "datetime \<Rightarrow> string \<Rightarrow> string" where
  "strftime d [] = []"
| "strftime d [c] = [c]"
| "strftime d (c # e # fs) =
     (if c = CHR ''%'' then directive d e @ strftime d fs
      else c # strftime d (e # fs))"

subsection \<open>The world the function runs in\<close>

text \<open>
  The exceptions that leave the function: the two it raises itself, each with its message
  (the specification calls \<open>FileExistsError\<close> a name collision and \<open>NameError\<close> the
  exhaustion of name generation), and the \<^verbatim>\<open>OSError\<close> of an existence check, with its
  error number.
\<close>

datatype error = FileExistsError string | NameError string | OSError nat

text \<open>
  \<open>files\<close> is the set of path strings \<open>p\<close> that exist, those for which
  \<^verbatim>\<open>Path(p).exists()\<close> answers \<^verbatim>\<open>True\<close>. \<^verbatim>\<open>exists()\<close> answers \<^verbatim>\<open>False\<close>
  when the underlying \<^verbatim>\<open>stat\<close> fails with \<^verbatim>\<open>ENOENT\<close>, \<^verbatim>\<open>ENOTDIR\<close>,
  \<^verbatim>\<open>EBADF\<close> or \<^verbatim>\<open>ELOOP\<close> and raises the \<^verbatim>\<open>OSError\<close> again for every other
  error number: \<open>unreadable\<close> maps the paths on which that happens to the error number
  (36, \<^verbatim>\<open>ENAMETOOLONG\<close>, for a name of more than 255 bytes; 13, \<^verbatim>\<open>EACCES\<close>, for a
  directory that may not be searched). \<open>clock\<close> is the reading \<^verbatim>\<open>datetime.now()\<close>
  gives during the call. \<open>trace\<close> records, oldest first, every call the program makes
  to either of them, so that what a run has consulted can be stated. Both operations read
  the world and hand it back with the call appended to the trace.
\<close>

datatype event = PathExists string | DatetimeNow

record world =
  files :: "string set"
  unreadable :: "string \<rightharpoonup> nat"
  clock :: datetime
  trace :: "event list"

definition path_exists :: "string \<Rightarrow> world \<Rightarrow> (error + bool) \<times> world" where
  "path_exists p w =
     (if p \<in> files w then Inr True
      else (case unreadable w p of None \<Rightarrow> Inr False | Some e \<Rightarrow> Inl (OSError e)),
      w\<lparr>trace := trace w @ [PathExists p]\<rparr>)"

definition datetime_now :: "world \<Rightarrow> datetime \<times> world" where
  "datetime_now w = (clock w, w\<lparr>trace := trace w @ [DatetimeNow]\<rparr>)"

subsection \<open>The function\<close>

text \<open>The reassignment of \<^verbatim>\<open>inname\<close> that strips the extension (lines 64 and 65).\<close>

definition strip_extension :: "string \<Rightarrow> string" where
  "strip_extension inname =
     (if CHR ''.'' \<in> set inname
      then str_join ''.'' (butlast (str_split (CHR ''.'') inname))
      else inname)"

text \<open>
  An \<^verbatim>\<open>OSError\<close> of either existence check is not caught (lines 68 and 73), so it
  leaves the function at once.
\<close>

definition infer_out_video_name ::
  "string option \<Rightarrow> string \<Rightarrow> world \<Rightarrow> (error + string) \<times> world" where
  "infer_out_video_name outname inname w =
     (case outname of
        Some out \<Rightarrow>
          if out = inname
          then (Inl (FileExistsError ''Output video must be different from the input video''), w)
          else (Inr out, w)
      | None \<Rightarrow>
          let inname' = strip_extension inname;
              conv_name = inname' @ ''.webm'';
              (conv_exists, w1) = path_exists conv_name w
          in case conv_exists of
               Inl e \<Rightarrow> (Inl e, w1)
             | Inr conv_found \<Rightarrow>
                 if conv_found
                 then
                   let (dt, w2) = datetime_now w1;
                       now = strftime dt ''%Y-%m-%d-%H%M%S'';
                       safer_name = inname' @ ''-trimshare-'' @ now @ ''.webm'';
                       (safer_exists, w3) = path_exists safer_name w2
                   in case safer_exists of
                        Inl e \<Rightarrow> (Inl e, w3)
                      | Inr safer_found \<Rightarrow>
                          if safer_found
                          then (Inl (NameError
                                 (''Could not automatically generate a safe file name for ''
                                    @ inname')), w3)
                          else (Inr safer_name, w3)
                 else (Inr conv_name, w1))"

subsection \<open>The names of the specification\<close>

text \<open>
  The base name as the specification words it: locate the last occurrence of the
  extension separator and, if there is one, take everything before it; otherwise keep
  the whole string. \<open>rfind\<close> is the index of the last occurrence.
\<close>

fun rfind :: "char \<Rightarrow> string \<Rightarrow> nat option" where
  "rfind c [] = None"
| "rfind c (x # xs) =
     (case rfind c xs of
        Some i \<Rightarrow> Some (Suc i)
      | None \<Rightarrow> if x = c then Some 0 else None)"

definition spec_base_name :: "string \<Rightarrow> string" where
  "spec_base_name s = (case rfind (CHR ''.'') s of Some i \<Rightarrow> take i s | None \<Rightarrow> s)"

text \<open>
  The timestamp as the specification words it, \<^verbatim>\<open>YYYY-MM-DD-HHMMSS\<close>: every field
  has a fixed number of decimal digits, leading zeros included.
\<close>

primrec fixed_digits :: "nat \<Rightarrow> nat \<Rightarrow> string" where
  "fixed_digits 0 n = []"
| "fixed_digits (Suc w) n = fixed_digits w (n div 10) @ [digit_char (n mod 10)]"

definition spec_timestamp :: "datetime \<Rightarrow> string" where
  "spec_timestamp d =
     fixed_digits 4 (year d) @ ''-'' @ fixed_digits 2 (month d) @ ''-'' @
     fixed_digits 2 (day d) @ ''-'' @ fixed_digits 2 (hour d) @
     fixed_digits 2 (minute d) @ fixed_digits 2 (second d)"

definition spec_primary :: "string \<Rightarrow> string" where
  "spec_primary inname = spec_base_name inname @ ''.webm''"

definition spec_fallback :: "string \<Rightarrow> datetime \<Rightarrow> string" where
  "spec_fallback inname d =
     spec_base_name inname @ ''-trimshare-'' @ spec_timestamp d @ ''.webm''"

section \<open>Properties\<close>

subsection \<open>Splitting and joining\<close>

lemma str_split_not_Nil: "str_split c s \<noteq> []"
  by (induction s) auto

lemma str_split_no_sep: "c \<notin> set s \<Longrightarrow> str_split c s = [s]"
  by (induction s) auto

lemma str_split_append: "str_split c (a @ c # b) = str_split c a @ str_split c b"
proof (induction a)
  case Nil
  show ?case by simp
next
  case (Cons x a)
  have ne: "str_split c a \<noteq> []" by (rule str_split_not_Nil)
  show ?case using Cons ne by (cases "str_split c a") auto
qed

lemma str_join_split: "str_join [c] (str_split c s) = s"
proof (induction s)
  case Nil
  show ?case by simp
next
  case (Cons x s)
  obtain p ps where sp: "str_split c s = p # ps"
    using str_split_not_Nil [of c s] by (cases "str_split c s") auto
  show ?case
  proof (cases "x = c")
    case True
    then show ?thesis using Cons sp by simp
  next
    case False
    then show ?thesis using Cons sp by (cases ps) auto
  qed
qed

text \<open>
  What the reassignment keeps: a name whose last dot is followed by \<open>b\<close> loses that dot
  and \<open>b\<close>, whatever dots come earlier; a name without a dot is kept.
\<close>

lemma strip_extension_last_dot:
  assumes "CHR ''.'' \<notin> set b"
  shows "strip_extension (a @ CHR ''.'' # b) = a"
  using assms
  by (simp add: strip_extension_def str_split_append str_split_no_sep str_join_split)

lemma strip_extension_no_dot: "CHR ''.'' \<notin> set s \<Longrightarrow> strip_extension s = s"
  by (simp add: strip_extension_def)

subsection \<open>The code computes the names of the specification\<close>

lemma rfind_None: "rfind c s = None \<longleftrightarrow> c \<notin> set s"
  by (induction s) (auto split: option.splits)

lemma rfind_last: "c \<notin> set b \<Longrightarrow> rfind c (a @ c # b) = Some (length a)"
proof (induction a)
  case Nil
  then have "rfind c b = None" by (simp add: rfind_None)
  then show ?case by simp
next
  case (Cons x a)
  then show ?case by simp
qed

lemma spec_base_name_last_dot:
  "CHR ''.'' \<notin> set b \<Longrightarrow> spec_base_name (a @ CHR ''.'' # b) = a"
  by (simp add: spec_base_name_def rfind_last)

lemma spec_base_name_no_dot: "CHR ''.'' \<notin> set s \<Longrightarrow> spec_base_name s = s"
  using rfind_None [of "CHR ''.''" s] by (simp add: spec_base_name_def)

lemma strip_extension_spec: "strip_extension s = spec_base_name s"
proof (cases "CHR ''.'' \<in> set s")
  case True
  then obtain a b where "s = a @ CHR ''.'' # b" "CHR ''.'' \<notin> set b"
    using split_list_last by fastforce
  then have "strip_extension s = a" "spec_base_name s = a"
    using strip_extension_last_dot [of b a] spec_base_name_last_dot [of b a] by simp_all
  then show ?thesis by simp
next
  case False
  then show ?thesis by (simp add: strip_extension_no_dot spec_base_name_no_dot)
qed

text \<open>
  Padding the decimal digits of a number below \<open>10 ^ w\<close> to width \<open>w\<close> gives exactly
  \<open>w\<close> digits, so the formatted clock reading is the timestamp of the specification.
\<close>

lemma fixed_digits_zero: "fixed_digits w 0 = replicate w (CHR ''0'')"
  by (induction w) (simp_all add: digit_char_def replicate_append_same)

lemma length_str_nat: "n < 10 ^ w \<Longrightarrow> 0 < w \<Longrightarrow> length (str_nat n) \<le> w"
proof (induction w arbitrary: n)
  case 0
  then show ?case by simp
next
  case (Suc w)
  show ?case
  proof (cases "n < 10")
    case True
    then show ?thesis by (simp add: str_nat.simps [of n])
  next
    case False
    then have "n div 10 < 10 ^ w" "0 < w" using Suc.prems by (auto intro: Nat.gr0I)
    then have "length (str_nat (n div 10)) \<le> w" by (rule Suc.IH)
    then show ?thesis using False by (simp add: str_nat.simps [of n])
  qed
qed

lemma zfill_str_nat: "n < 10 ^ w \<Longrightarrow> 0 < w \<Longrightarrow> zfill w (str_nat n) = fixed_digits w n"
proof (induction w arbitrary: n)
  case 0
  then show ?case by simp
next
  case (Suc w)
  show ?case
  proof (cases "n < 10")
    case True
    then show ?thesis
      by (simp add: str_nat.simps [of n] zfill_def fixed_digits_zero)
  next
    case False
    then have small: "n div 10 < 10 ^ w" and pos: "0 < w"
      using Suc.prems by (auto intro: Nat.gr0I)
    have len: "length (str_nat (n div 10)) \<le> w" using small pos by (rule length_str_nat)
    have "zfill w (str_nat (n div 10)) = fixed_digits w (n div 10)"
      using small pos by (rule Suc.IH)
    then show ?thesis using False len
      by (simp add: str_nat.simps [of n] zfill_def Suc_diff_le)
  qed
qed

lemma str_nat_not_Nil: "str_nat n \<noteq> []"
  by (simp add: str_nat.simps [of n])

lemma length_str_nat_ge: "10 ^ w \<le> n \<Longrightarrow> w < length (str_nat n)"
proof (induction w arbitrary: n)
  case 0
  then show ?case using str_nat_not_Nil [of n] by simp
next
  case (Suc w)
  have one: "1 \<le> (10::nat) ^ w" by simp
  have ten: "10 * 10 ^ w \<le> n" using Suc.prems by simp
  have big: "\<not> n < 10" using one ten by linarith
  have "10 ^ w \<le> n div 10" using ten by linarith
  then have "w < length (str_nat (n div 10))" by (rule Suc.IH)
  then show ?case using big by (simp add: str_nat.simps [of n])
qed

text \<open>From the year 1000 on the unpadded year has its four digits.\<close>

lemma str_nat_year: "1000 \<le> n \<Longrightarrow> n < 10 ^ 4 \<Longrightarrow> str_nat n = fixed_digits 4 n"
proof -
  assume lo: "1000 \<le> n" and hi: "n < 10 ^ 4"
  have "10 ^ 3 \<le> n" using lo by simp
  then have "3 < length (str_nat n)" by (rule length_str_nat_ge)
  then have "zfill 4 (str_nat n) = str_nat n" by (simp add: zfill_def)
  then show ?thesis using zfill_str_nat [OF hi] by simp
qed

lemma days_in_month_le: "days_in_month y m \<le> 31"
  by (simp add: days_in_month_def)

lemma strftime_spec:
  assumes "valid_datetime d" and "1000 \<le> year d"
  shows "strftime d ''%Y-%m-%d-%H%M%S'' = spec_timestamp d"
proof -
  have y: "year d < 10 ^ 4" using assms by (simp add: valid_datetime_def)
  have m: "month d < 10 ^ 2" using assms by (simp add: valid_datetime_def)
  have dd: "day d < 10 ^ 2"
    using assms days_in_month_le [of "year d" "month d"] by (simp add: valid_datetime_def)
  have h: "hour d < 10 ^ 2" using assms by (simp add: valid_datetime_def)
  have mi: "minute d < 10 ^ 2" using assms by (simp add: valid_datetime_def)
  have s: "second d < 10 ^ 2" using assms by (simp add: valid_datetime_def)
  show ?thesis
    unfolding spec_timestamp_def
    by (simp add: directive_def str_nat_year [OF assms(2) y] zfill_str_nat [OF m]
        zfill_str_nat [OF dd] zfill_str_nat [OF h] zfill_str_nat [OF mi] zfill_str_nat [OF s]
        del: fixed_digits.simps)
qed

subsection \<open>The clock of the tests\<close>

lemma valid_frozen_clock: "valid_datetime frozen_clock"
  by (simp add: valid_datetime_def frozen_clock_def days_in_month_def)

lemma fixed_digits_2: "fixed_digits 2 n = [digit_char (n div 10 mod 10), digit_char (n mod 10)]"
proof -
  have "fixed_digits (Suc (Suc 0)) n = [digit_char (n div 10 mod 10), digit_char (n mod 10)]"
    by simp
  then show ?thesis by (simp only: numeral_2_eq_2)
qed

lemma fixed_digits_4:
  "fixed_digits 4 n = [digit_char (n div 10 div 10 div 10 mod 10),
                       digit_char (n div 10 div 10 mod 10),
                       digit_char (n div 10 mod 10), digit_char (n mod 10)]"
proof -
  have "fixed_digits (Suc (Suc (Suc (Suc 0)))) n =
          [digit_char (n div 10 div 10 div 10 mod 10), digit_char (n div 10 div 10 mod 10),
           digit_char (n div 10 mod 10), digit_char (n mod 10)]"
    by simp
  moreover have "(4::nat) = Suc (Suc (Suc (Suc 0)))" by simp
  ultimately show ?thesis by (simp only:)
qed

lemma spec_timestamp_frozen_clock: "spec_timestamp frozen_clock = ''2001-01-01-010101''"
  by (simp add: spec_timestamp_def frozen_clock_def fixed_digits_2 fixed_digits_4 digit_char_def
      del: fixed_digits.simps)

subsection \<open>The branches of the function\<close>

lemma infer_auto:
  "infer_out_video_name None inname w =
     (if spec_primary inname \<in> files w
      then (if spec_base_name inname @ ''-trimshare-'' @ strftime (clock w) ''%Y-%m-%d-%H%M%S''
                 @ ''.webm'' \<in> files w
            then Inl (NameError (''Could not automatically generate a safe file name for ''
                        @ spec_base_name inname))
            else (case unreadable w (spec_base_name inname @ ''-trimshare-''
                        @ strftime (clock w) ''%Y-%m-%d-%H%M%S'' @ ''.webm'') of
                    None \<Rightarrow> Inr (spec_base_name inname @ ''-trimshare-''
                        @ strftime (clock w) ''%Y-%m-%d-%H%M%S'' @ ''.webm'')
                  | Some e \<Rightarrow> Inl (OSError e)),
            w\<lparr>trace := trace w @ [PathExists (spec_primary inname), DatetimeNow,
                  PathExists (spec_base_name inname @ ''-trimshare-''
                        @ strftime (clock w) ''%Y-%m-%d-%H%M%S'' @ ''.webm'')]\<rparr>)
      else (case unreadable w (spec_primary inname) of
              None \<Rightarrow> Inr (spec_primary inname)
            | Some e \<Rightarrow> Inl (OSError e),
            w\<lparr>trace := trace w @ [PathExists (spec_primary inname)]\<rparr>))"
  by (simp add: infer_out_video_name_def path_exists_def datetime_now_def spec_primary_def
      strip_extension_spec Let_def del: strftime.simps split: option.split)

lemma infer_explicit:
  "infer_out_video_name (Some out) inname w =
     (if out = inname
      then (Inl (FileExistsError ''Output video must be different from the input video''), w)
      else (Inr out, w))"
  by (simp add: infer_out_video_name_def)


lemma infer_files: "files (snd (infer_out_video_name outname inname w)) = files w"
  by (cases outname) (simp_all add: infer_explicit infer_auto del: strftime.simps)

lemma infer_unreadable:
  "unreadable (snd (infer_out_video_name outname inname w)) = unreadable w"
  by (cases outname) (simp_all add: infer_explicit infer_auto del: strftime.simps)

lemma infer_clock: "clock (snd (infer_out_video_name outname inname w)) = clock w"
  by (cases outname) (simp_all add: infer_explicit infer_auto del: strftime.simps)

lemma infer_outcome_cong:
  assumes "files w = files w'" and "unreadable w = unreadable w'" and "clock w = clock w'"
  shows "fst (infer_out_video_name outname inname w) = fst (infer_out_video_name outname inname w')"
  using assms
  by (cases outname)
     (auto simp: infer_explicit infer_auto simp del: strftime.simps split: option.split)

subsection \<open>When the generated name is the input name\<close>




subsection \<open>Directories and repeated calls\<close>

text \<open>
  When the file name itself has an extension, the last dot of the path lies in the file
  name and everything before it, directories included, is kept.
\<close>

lemma directory_kept_when_file_has_extension:
  assumes "CHR ''.'' \<notin> set ext"
    and "spec_primary (dir @ ''/'' @ name @ ''.'' @ ext) \<notin> files w"
    and "unreadable w (spec_primary (dir @ ''/'' @ name @ ''.'' @ ext)) = None"
  shows "fst (infer_out_video_name None (dir @ ''/'' @ name @ ''.'' @ ext) w)
           = Inr (dir @ ''/'' @ name @ ''.webm'')"
proof -
  have "dir @ ''/'' @ name @ ''.'' @ ext = (dir @ ''/'' @ name) @ CHR ''.'' # ext" by simp
  then have "spec_base_name (dir @ ''/'' @ name @ ''.'' @ ext) = dir @ ''/'' @ name"
    using spec_base_name_last_dot [OF assms(1), of "dir @ ''/'' @ name"] by simp
  then show ?thesis using assms(2,3)
    by (simp add: infer_auto spec_primary_def del: strftime.simps)
qed

text \<open>A second call, run in the world the first call leaves, has the same outcome.\<close>

lemma second_call_same_outcome:
  "fst (infer_out_video_name outname inname (snd (infer_out_video_name outname inname w)))
     = fst (infer_out_video_name outname inname w)"
  by (rule infer_outcome_cong) (simp_all add: infer_files infer_unreadable infer_clock)

subsection \<open>Clock readings and names used in the examples\<close>

lemma strftime_frozen_clock: "strftime frozen_clock ''%Y-%m-%d-%H%M%S'' = ''2001-01-01-010101''"
proof -
  have "1000 \<le> year frozen_clock" by (simp add: frozen_clock_def)
  then show ?thesis
    using strftime_spec [OF valid_frozen_clock] spec_timestamp_frozen_clock by simp
qed

text \<open>In the year 999 the year is printed with three digits.\<close>

lemma valid_year_999: "valid_datetime clock_year_999"
  by (simp add: valid_datetime_def clock_year_999_def days_in_month_def)

lemma strftime_year_999: "strftime clock_year_999 ''%Y-%m-%d-%H%M%S'' = ''999-01-01-000000''"
  by (simp add: clock_year_999_def directive_def zfill_def str_nat.simps digit_char_def)

lemma spec_timestamp_year_999: "spec_timestamp clock_year_999 = ''0999-01-01-000000''"
  by (simp add: spec_timestamp_def clock_year_999_def fixed_digits_2 fixed_digits_4 digit_char_def
      del: fixed_digits.simps)

lemma spec_base_name_long: "spec_base_name (replicate n (CHR ''x'') @ ''.mkv'') = replicate n (CHR ''x'')"
proof -
  have "CHR ''.'' \<notin> set ''mkv''" by simp
  then have "spec_base_name (replicate n (CHR ''x'') @ CHR ''.'' # ''mkv'') = replicate n (CHR ''x'')"
    by (rule spec_base_name_last_dot)
  then show ?thesis by simp
qed

section \<open>The claims\<close>

text \<open>
  C1: the claim is that in auto-generate mode (no explicit name), whenever the primary
  candidate, the base name followed by \<^verbatim>\<open>.webm\<close>, does not exist, the function returns
  it. It fails when the existence check itself raises: an existing input of 255 bytes,
  251 times \<^verbatim>\<open>x\<close> and \<^verbatim>\<open>.mkv\<close>, has a primary candidate of 256 bytes, which does not
  exist and on which \<^verbatim>\<open>exists()\<close> raises \<^verbatim>\<open>OSError\<close> 36.
\<close>

theorem auto_primary_unreadable_counterexample:
  "spec_base_name (replicate 251 (CHR ''x'') @ ''.mkv'') @ ''.webm''
     \<notin> files \<lparr>files = {replicate 251 (CHR ''x'') @ ''.mkv''},
               unreadable = [replicate 251 (CHR ''x'') @ ''.webm'' \<mapsto> 36],
               clock = frozen_clock, trace = []\<rparr>
   \<and> fst (infer_out_video_name None (replicate 251 (CHR ''x'') @ ''.mkv'')
            \<lparr>files = {replicate 251 (CHR ''x'') @ ''.mkv''},
              unreadable = [replicate 251 (CHR ''x'') @ ''.webm'' \<mapsto> 36],
              clock = frozen_clock, trace = []\<rparr>) = Inl (OSError 36)"
  by (simp add: infer_auto spec_primary_def spec_base_name_long del: strftime.simps)

text \<open>
  C1, amended: in auto-generate mode, when the primary candidate does not exist and its
  existence check raises no \<^verbatim>\<open>OSError\<close>, the function returns the primary candidate.
  The base name is the input with only what follows its last dot stripped, and the input
  itself when it has no dot.
\<close>

theorem auto_returns_primary:
  assumes "spec_base_name inname @ ''.webm'' \<notin> files w"
    and "unreadable w (spec_base_name inname @ ''.webm'') = None"
  shows "fst (infer_out_video_name None inname w) = Inr (spec_base_name inname @ ''.webm'')"
  using assms by (simp add: infer_auto spec_primary_def del: strftime.simps)

theorem auto_returns_primary_witness:
  "spec_base_name ''my.special.video.mp4'' @ ''.webm''
     \<notin> files \<lparr>files = {}, unreadable = Map.empty, clock = frozen_clock, trace = []\<rparr>
   \<and> unreadable \<lparr>files = {}, unreadable = Map.empty, clock = frozen_clock, trace = []\<rparr>
        (spec_base_name ''my.special.video.mp4'' @ ''.webm'') = None
   \<and> fst (infer_out_video_name None ''my.special.video.mp4''
            \<lparr>files = {}, unreadable = Map.empty, clock = frozen_clock, trace = []\<rparr>)
       = Inr ''my.special.video.webm''"
proof -
  let ?w = "\<lparr>files = {}, unreadable = Map.empty, clock = frozen_clock, trace = []\<rparr>"
  have h: "spec_base_name ''my.special.video.mp4'' @ ''.webm'' \<notin> files ?w"
    by simp
  have u: "unreadable ?w (spec_base_name ''my.special.video.mp4'' @ ''.webm'') = None"
    by simp
  show ?thesis
    using h u auto_returns_primary [OF h u] by (simp add: spec_base_name_def)
qed

text \<open>
  C2: the claim is that in auto-generate mode, when the primary candidate exists and the
  name qualified by the timestamp does not, the function returns the base name followed by
  \<^verbatim>\<open>-trimshare-\<close>, the clock reading as \<^verbatim>\<open>YYYY-MM-DD-HHMMSS\<close> with every field
  padded with zeros, and \<^verbatim>\<open>.webm\<close>. It fails in the year 999, where the code prints the
  year with three digits, and it fails when the existence check of the qualified name
  raises, as it does on a name of 258 bytes.
\<close>

theorem auto_timestamp_counterexample:
  "valid_datetime clock_year_999
   \<and> spec_base_name ''old.mp4'' @ ''.webm''
       \<in> files \<lparr>files = {''old.webm''}, unreadable = Map.empty,
              clock = clock_year_999, trace = []\<rparr>
   \<and> spec_base_name ''old.mp4'' @ ''-trimshare-'' @ spec_timestamp clock_year_999 @ ''.webm''
       = ''old-trimshare-0999-01-01-000000.webm''
   \<and> fst (infer_out_video_name None ''old.mp4''
            \<lparr>files = {''old.webm''}, unreadable = Map.empty,
              clock = clock_year_999, trace = []\<rparr>)
       = Inr ''old-trimshare-999-01-01-000000.webm''
   \<and> fst (infer_out_video_name None (replicate 225 (CHR ''x'') @ ''.mkv'')
            \<lparr>files = {replicate 225 (CHR ''x'') @ ''.mkv'', replicate 225 (CHR ''x'') @ ''.webm''},
              unreadable =
                [replicate 225 (CHR ''x'') @ ''-trimshare-2001-01-01-010101.webm'' \<mapsto> 36],
              clock = frozen_clock, trace = []\<rparr>)
       = Inl (OSError 36)"
proof -
  have b: "spec_base_name ''old.mp4'' = ''old''"
    by (simp add: spec_base_name_def)
  have early: "fst (infer_out_video_name None ''old.mp4''
            \<lparr>files = {''old.webm''}, unreadable = Map.empty,
              clock = clock_year_999, trace = []\<rparr>)
       = Inr ''old-trimshare-999-01-01-000000.webm''"
    by (simp add: infer_auto spec_primary_def b strftime_year_999 del: strftime.simps)
  have long: "fst (infer_out_video_name None (replicate 225 (CHR ''x'') @ ''.mkv'')
            \<lparr>files = {replicate 225 (CHR ''x'') @ ''.mkv'', replicate 225 (CHR ''x'') @ ''.webm''},
              unreadable =
                [replicate 225 (CHR ''x'') @ ''-trimshare-2001-01-01-010101.webm'' \<mapsto> 36],
              clock = frozen_clock, trace = []\<rparr>)
       = Inl (OSError 36)"
    by (simp add: infer_auto spec_primary_def spec_base_name_long strftime_frozen_clock
        del: strftime.simps)
  show ?thesis
    using early long by (simp add: valid_year_999 b spec_timestamp_year_999)
qed

text \<open>
  C2, amended: in auto-generate mode, for a clock reading from the year 1000 on, when the
  primary candidate exists, the name qualified by the timestamp does not and its existence
  check raises no \<^verbatim>\<open>OSError\<close>, the function returns the base name followed by
  \<^verbatim>\<open>-trimshare-\<close>, the clock reading as \<^verbatim>\<open>YYYY-MM-DD-HHMMSS\<close> with every field
  padded with zeros, and \<^verbatim>\<open>.webm\<close>.
\<close>

theorem auto_returns_timestamped:
  assumes "valid_datetime (clock w)" and "1000 \<le> year (clock w)"
    and "spec_base_name inname @ ''.webm'' \<in> files w"
    and "spec_base_name inname @ ''-trimshare-'' @ spec_timestamp (clock w) @ ''.webm'' \<notin> files w"
    and "unreadable w
           (spec_base_name inname @ ''-trimshare-'' @ spec_timestamp (clock w) @ ''.webm'') = None"
  shows "fst (infer_out_video_name None inname w) =
           Inr (spec_base_name inname @ ''-trimshare-'' @ spec_timestamp (clock w) @ ''.webm'')"
  using assms
  by (simp add: infer_auto spec_primary_def strftime_spec del: strftime.simps)

theorem auto_returns_timestamped_witness:
  "valid_datetime
     (clock \<lparr>files = {''myvideo.webm''}, unreadable = Map.empty, clock = frozen_clock, trace = []\<rparr>)
   \<and> 1000 \<le> year
       (clock \<lparr>files = {''myvideo.webm''}, unreadable = Map.empty, clock = frozen_clock, trace = []\<rparr>)
   \<and> spec_base_name ''myvideo.webm'' @ ''.webm''
       \<in> files \<lparr>files = {''myvideo.webm''}, unreadable = Map.empty, clock = frozen_clock, trace = []\<rparr>
   \<and> fst (infer_out_video_name None ''myvideo.webm''
            \<lparr>files = {''myvideo.webm''}, unreadable = Map.empty, clock = frozen_clock, trace = []\<rparr>)
       = Inr ''myvideo-trimshare-2001-01-01-010101.webm''"
proof -
  let ?w = "\<lparr>files = {''myvideo.webm''}, unreadable = Map.empty, clock = frozen_clock, trace = []\<rparr>"
  have b: "spec_base_name ''myvideo.webm'' = ''myvideo''"
    by (simp add: spec_base_name_def)
  have v: "valid_datetime (clock ?w)" by (simp add: valid_frozen_clock)
  have y: "1000 \<le> year (clock ?w)" by (simp add: frozen_clock_def)
  have p: "spec_base_name ''myvideo.webm'' @ ''.webm'' \<in> files ?w" by (simp add: b)
  have f: "spec_base_name ''myvideo.webm'' @ ''-trimshare-'' @ spec_timestamp (clock ?w)
             @ ''.webm'' \<notin> files ?w"
    by (simp add: b spec_timestamp_frozen_clock)
  have u: "unreadable ?w (spec_base_name ''myvideo.webm'' @ ''-trimshare-''
             @ spec_timestamp (clock ?w) @ ''.webm'') = None"
    by simp
  show ?thesis
    using v y p auto_returns_timestamped [OF v y p f u]
    by (simp add: b spec_timestamp_frozen_clock)
qed

text \<open>
  C3: the claim is that in auto-generate mode, when both the primary candidate and the name
  qualified by the timestamp of the current clock reading exist, the function raises
  \<open>NameError\<close> (the exhaustion of name generation). It fails in the year 999: the name
  with the four-digit year exists, the code checks the name with the three-digit year,
  does not find it and returns it.
\<close>

theorem auto_exhausted_counterexample:
  "valid_datetime clock_year_999
   \<and> spec_base_name ''old.mp4'' @ ''.webm''
       \<in> files \<lparr>files = {''old.webm'', ''old-trimshare-0999-01-01-000000.webm''},
                 unreadable = Map.empty, clock = clock_year_999, trace = []\<rparr>
   \<and> spec_base_name ''old.mp4'' @ ''-trimshare-'' @ spec_timestamp clock_year_999 @ ''.webm''
       \<in> files \<lparr>files = {''old.webm'', ''old-trimshare-0999-01-01-000000.webm''},
                 unreadable = Map.empty, clock = clock_year_999, trace = []\<rparr>
   \<and> fst (infer_out_video_name None ''old.mp4''
            \<lparr>files = {''old.webm'', ''old-trimshare-0999-01-01-000000.webm''},
              unreadable = Map.empty, clock = clock_year_999, trace = []\<rparr>)
       = Inr ''old-trimshare-999-01-01-000000.webm''"
proof -
  have b: "spec_base_name ''old.mp4'' = ''old''"
    by (simp add: spec_base_name_def)
  have r: "fst (infer_out_video_name None ''old.mp4''
            \<lparr>files = {''old.webm'', ''old-trimshare-0999-01-01-000000.webm''},
              unreadable = Map.empty, clock = clock_year_999, trace = []\<rparr>)
       = Inr ''old-trimshare-999-01-01-000000.webm''"
    by (simp add: infer_auto spec_primary_def b strftime_year_999 del: strftime.simps)
  show ?thesis
    using r by (simp add: valid_year_999 b spec_timestamp_year_999)
qed

text \<open>
  C3, amended: in auto-generate mode, for a clock reading from the year 1000 on, when both
  the primary candidate and the name qualified by the timestamp of the current clock
  reading exist, the function raises \<open>NameError\<close> (the exhaustion of name generation) and
  returns no name.
\<close>

theorem auto_exhausted:
  assumes "valid_datetime (clock w)" and "1000 \<le> year (clock w)"
    and "spec_base_name inname @ ''.webm'' \<in> files w"
    and "spec_base_name inname @ ''-trimshare-'' @ spec_timestamp (clock w) @ ''.webm'' \<in> files w"
  shows "fst (infer_out_video_name None inname w) =
           Inl (NameError (''Could not automatically generate a safe file name for ''
                  @ spec_base_name inname))"
  using assms
  by (simp add: infer_auto spec_primary_def strftime_spec del: strftime.simps)

theorem auto_exhausted_witness:
  "valid_datetime (clock \<lparr>files = {''stuff.mkv'', ''stuff.webm'',
        ''stuff-trimshare-2001-01-01-010101.webm''}, unreadable = Map.empty,
        clock = frozen_clock, trace = []\<rparr>)
   \<and> 1000 \<le> year (clock \<lparr>files = {''stuff.mkv'', ''stuff.webm'',
        ''stuff-trimshare-2001-01-01-010101.webm''}, unreadable = Map.empty,
        clock = frozen_clock, trace = []\<rparr>)
   \<and> fst (infer_out_video_name None ''stuff.mkv''
        \<lparr>files = {''stuff.mkv'', ''stuff.webm'', ''stuff-trimshare-2001-01-01-010101.webm''},
          unreadable = Map.empty, clock = frozen_clock, trace = []\<rparr>)
       = Inl (NameError ''Could not automatically generate a safe file name for stuff'')"
proof -
  let ?w = "\<lparr>files = {''stuff.mkv'', ''stuff.webm'', ''stuff-trimshare-2001-01-01-010101.webm''},
              unreadable = Map.empty, clock = frozen_clock, trace = []\<rparr>"
  have b: "spec_base_name ''stuff.mkv'' = ''stuff''"
    by (simp add: spec_base_name_def)
  have v: "valid_datetime (clock ?w)" by (simp add: valid_frozen_clock)
  have y: "1000 \<le> year (clock ?w)" by (simp add: frozen_clock_def)
  have p: "spec_base_name ''stuff.mkv'' @ ''.webm'' \<in> files ?w" by (simp add: b)
  have f: "spec_base_name ''stuff.mkv'' @ ''-trimshare-'' @ spec_timestamp (clock ?w)
             @ ''.webm'' \<in> files ?w"
    by (simp add: b spec_timestamp_frozen_clock)
  show ?thesis
    using v y auto_exhausted [OF v y p f] by (simp add: b)
qed

text \<open>
  C4: an explicit output name equal to the input name makes the function raise
  \<open>FileExistsError\<close> (the name collision), whatever the filesystem and the clock.
\<close>

theorem explicit_same_name_collision:
  "fst (infer_out_video_name (Some inname) inname w) =
     Inl (FileExistsError ''Output video must be different from the input video'')"
  by (simp add: infer_explicit)

text \<open>
  C5: an explicit output name that differs from the input name is returned unchanged,
  whatever the filesystem and the clock; the world comes back as it was, trace included, so
  no existence check and no clock reading happens on this branch.
\<close>

theorem explicit_other_name_returned:
  assumes "out \<noteq> inname"
  shows "infer_out_video_name (Some out) inname w = (Inr out, w)"
  using assms by (simp add: infer_explicit)

theorem explicit_other_name_returned_witness:
  "''pwn3d.webm'' \<noteq> ''deep/as/heck/path/myvideo.mp4''
   \<and> infer_out_video_name (Some ''pwn3d.webm'') ''deep/as/heck/path/myvideo.mp4''
        \<lparr>files = {''pwn3d.webm''}, unreadable = Map.empty, clock = frozen_clock, trace = []\<rparr>
       = (Inr ''pwn3d.webm'', \<lparr>files = {''pwn3d.webm''}, unreadable = Map.empty, clock = frozen_clock, trace = []\<rparr>)"
proof -
  have h: "''pwn3d.webm'' \<noteq> ''deep/as/heck/path/myvideo.mp4''" by simp
  show ?thesis
    using h explicit_other_name_returned [OF h] by simp
qed




text \<open>
  C7: the claim is that the directory components of the input are kept verbatim, also when
  they contain dots. The code strips after the last dot of the whole path: for a file name
  without extension inside a directory whose name has a dot, the cut falls inside the
  directory name and the clip leaves the directory of the input.
\<close>

theorem dotted_directory_not_kept:
  "fst (infer_out_video_name None ''clips.2023/myvideo''
          \<lparr>files = {''clips.2023/myvideo''}, unreadable = Map.empty, clock = frozen_clock, trace = []\<rparr>)
     = Inr ''clips.webm''"
  by (simp add: infer_auto spec_primary_def spec_base_name_def del: strftime.simps)


text \<open>
  C9: the outcome (the returned name or the error) is a function of the arguments, the
  filesystem snapshot (what exists and what cannot be checked) and the clock reading: two
  worlds that agree on these give the same outcome.
\<close>

theorem outcome_deterministic:
  assumes "files w = files w'" and "unreadable w = unreadable w'" and "clock w = clock w'"
  shows "fst (infer_out_video_name outname inname w)
           = fst (infer_out_video_name outname inname w')"
  using assms by (rule infer_outcome_cong)

theorem outcome_deterministic_witness:
  "files \<lparr>files = {''a.webm''}, unreadable = Map.empty, clock = frozen_clock, trace = []\<rparr>
     = files \<lparr>files = {''a.webm''}, unreadable = Map.empty, clock = frozen_clock,
               trace = [DatetimeNow]\<rparr>
   \<and> unreadable \<lparr>files = {''a.webm''}, unreadable = Map.empty, clock = frozen_clock, trace = []\<rparr>
     = unreadable \<lparr>files = {''a.webm''}, unreadable = Map.empty, clock = frozen_clock,
                    trace = [DatetimeNow]\<rparr>
   \<and> clock \<lparr>files = {''a.webm''}, unreadable = Map.empty, clock = frozen_clock, trace = []\<rparr>
     = clock \<lparr>files = {''a.webm''}, unreadable = Map.empty, clock = frozen_clock,
               trace = [DatetimeNow]\<rparr>
   \<and> fst (infer_out_video_name None ''a.mp4''
            \<lparr>files = {''a.webm''}, unreadable = Map.empty, clock = frozen_clock, trace = []\<rparr>)
     = fst (infer_out_video_name None ''a.mp4''
            \<lparr>files = {''a.webm''}, unreadable = Map.empty, clock = frozen_clock,
              trace = [DatetimeNow]\<rparr>)"
proof -
  let ?w = "\<lparr>files = {''a.webm''}, unreadable = Map.empty, clock = frozen_clock, trace = []\<rparr>"
  let ?w' = "\<lparr>files = {''a.webm''}, unreadable = Map.empty, clock = frozen_clock,
              trace = [DatetimeNow]\<rparr>"
  have f: "files ?w = files ?w'" by simp
  have u: "unreadable ?w = unreadable ?w'" by simp
  have c: "clock ?w = clock ?w'" by simp
  show ?thesis
    using f u c outcome_deterministic [OF f u c, of None "''a.mp4''"] by simp
qed

text \<open>
  C10: in auto-generate mode, when the primary candidate does not exist, two runs that
  differ only in the clock reading return the same name, and the only call the run makes is
  the existence check of the primary candidate: the clock is not consulted.
\<close>

theorem primary_ignores_clock:
  assumes "spec_base_name inname @ ''.webm'' \<notin> files w"
  shows "fst (infer_out_video_name None inname (w\<lparr>clock := c1\<rparr>))
           = fst (infer_out_video_name None inname (w\<lparr>clock := c2\<rparr>))
         \<and> trace (snd (infer_out_video_name None inname w))
           = trace w @ [PathExists (spec_base_name inname @ ''.webm'')]"
  using assms by (simp add: infer_auto spec_primary_def del: strftime.simps split: option.split)

theorem primary_ignores_clock_witness:
  "spec_base_name ''myvideo.mp4'' @ ''.webm''
     \<notin> files \<lparr>files = {''myvideo.mp4''}, unreadable = Map.empty, clock = frozen_clock, trace = []\<rparr>
   \<and> fst (infer_out_video_name None ''myvideo.mp4''
        (\<lparr>files = {''myvideo.mp4''}, unreadable = Map.empty, clock = frozen_clock, trace = []\<rparr>
           \<lparr>clock := \<lparr>year = 2001, month = 1, day = 1, hour = 1, minute = 1, second = 1\<rparr>\<rparr>))
     = fst (infer_out_video_name None ''myvideo.mp4''
        (\<lparr>files = {''myvideo.mp4''}, unreadable = Map.empty, clock = frozen_clock, trace = []\<rparr>
           \<lparr>clock := \<lparr>year = 2024, month = 2, day = 29, hour = 23, minute = 59, second = 59\<rparr>\<rparr>))
   \<and> trace (snd (infer_out_video_name None ''myvideo.mp4''
        \<lparr>files = {''myvideo.mp4''}, unreadable = Map.empty, clock = frozen_clock, trace = []\<rparr>))
     = [PathExists ''myvideo.webm'']"
proof -
  let ?w = "\<lparr>files = {''myvideo.mp4''}, unreadable = Map.empty, clock = frozen_clock, trace = []\<rparr>"
  have b: "spec_base_name ''myvideo.mp4'' = ''myvideo''"
    by (simp add: spec_base_name_def)
  have h: "spec_base_name ''myvideo.mp4'' @ ''.webm'' \<notin> files ?w" by (simp add: b)
  show ?thesis
    using h primary_ignores_clock [OF h,
        of "\<lparr>year = 2001, month = 1, day = 1, hour = 1, minute = 1, second = 1\<rparr>"
           "\<lparr>year = 2024, month = 2, day = 29, hour = 23, minute = 59, second = 59\<rparr>"]
    by (simp add: b)
qed

end
